theory Spec2Isabelle
  imports
    Complex_Main
    "HOL-Library.Char_ord"
    "HOL-Library.List_Lexorder"
    "HOL-Library.Multiset"
begin

section \<open>The timesheet application (timesheet.app.py)\<close>

text \<open>
  The program keeps one SQLite table, \<^verbatim>\<open>timesheet\<close>, behind seven small functions, and a
  Streamlit script \<^verbatim>\<open>main\<close> that first checks a password and then offers three views.
  The embedding below follows the source function by function.

  Modelling decisions.
  \<^item> TEXT values are byte strings (\<^typ>\<open>string\<close>). SQLite compares TEXT of the default
    BINARY collation with memcmp, which is the lexicographic order of
    \<^theory_text>\<open>HOL-Library.List_Lexorder\<close> over the byte order of
    \<^theory_text>\<open>HOL-Library.Char_ord\<close>.
  \<^item> \<^verbatim>\<open>hours_worked\<close> is a Python float stored in a REAL column. The functions only
    store, overwrite and read it back, so a finite float is modelled by the real number
    it denotes; no arithmetic is done on it.
  \<^item> The arguments have the types the callers in \<^verbatim>\<open>main\<close> give them (str, float), so
    no column holds NULL.
  \<^item> \<^verbatim>\<open>conn.commit()\<close> makes the statement durable; the model is the table after it.
\<close>

subsection \<open>The table\<close>

text \<open>
  \<^verbatim>\<open>CREATE TABLE IF NOT EXISTS timesheet (id INTEGER PRIMARY KEY AUTOINCREMENT,
  work_date TEXT UNIQUE, hours_worked REAL, month_name TEXT)\<close>.
  The field \<^verbatim>\<open>id\<close> is named \<open>row_id\<close> here, since \<open>id\<close> is HOL's identity function.
\<close>

record row =
  row_id :: int
  work_date :: string
  hours_worked :: real
  month_name :: string

text \<open>
  The stored state: the rows, and the counter SQLite keeps in its \<^verbatim>\<open>sqlite_sequence\<close>
  table for an AUTOINCREMENT key (the largest rowid the table has ever held).
\<close>

record timesheet =
  rows :: "row list"
  sqlite_sequence :: int

datatype error = ValueError | OperationalError

definition empty_timesheet :: timesheet where
  "empty_timesheet = \<lparr>rows = [], sqlite_sequence = 0\<rparr>"

text \<open>\<^verbatim>\<open>create_table\<close>: creates the empty table when the database has none, else nothing.\<close>

definition create_table :: "timesheet option \<Rightarrow> timesheet" where
  "create_table db = (case db of None \<Rightarrow> empty_timesheet | Some t \<Rightarrow> t)"

text \<open>A rowid is a signed 64-bit integer.\<close>

definition max_rowid :: int where
  "max_rowid = 9223372036854775807"

text \<open>
  The schema's two constraints, as a predicate on the state: PRIMARY KEY on \<^verbatim>\<open>id\<close> and
  UNIQUE on \<^verbatim>\<open>work_date\<close>.
\<close>

definition constraints_hold :: "timesheet \<Rightarrow> bool" where
  "constraints_hold t \<longleftrightarrow>
     distinct (map row_id (rows t)) \<and> distinct (map work_date (rows t))"

subsection \<open>add\_data\<close>

text \<open>
  \<^verbatim>\<open>INSERT OR REPLACE INTO timesheet (id, work_date, hours_worked, month_name)
  VALUES ((SELECT id FROM timesheet WHERE work_date = ?), ?, ?, ?)\<close>

  The scalar subquery gives the id of the first row of that date, or NULL.
\<close>

definition select_id :: "string \<Rightarrow> timesheet \<Rightarrow> int option" where
  "select_id d t = map_option row_id (find (\<lambda>r. work_date r = d) (rows t))"

text \<open>
  A NULL id makes SQLite choose the rowid: with AUTOINCREMENT, one more than the largest
  rowid the table has ever held, and the insert fails with SQLITE\_FULL (Python's
  \<^verbatim>\<open>sqlite3.OperationalError\<close>) when that largest rowid is already the maximum.
\<close>

definition largest_rowid :: "timesheet \<Rightarrow> int" where
  "largest_rowid t = fold max (map row_id (rows t)) (sqlite_sequence t)"

text \<open>
  The conflict clause REPLACE deletes every row that the new row conflicts with (same
  id, or same \<^verbatim>\<open>work_date\<close>) and then inserts the new row; rows are kept in rowid order,
  as the table's B-tree keeps them.
\<close>

definition replace_row :: "row \<Rightarrow> timesheet \<Rightarrow> timesheet" where
  "replace_row r t =
     \<lparr>rows = insort_key row_id r
               (filter (\<lambda>x. row_id x \<noteq> row_id r \<and> work_date x \<noteq> work_date r) (rows t)),
      sqlite_sequence = max (sqlite_sequence t) (row_id r)\<rparr>"

definition add_data :: "string \<Rightarrow> real \<Rightarrow> string \<Rightarrow> timesheet \<Rightarrow> error + timesheet" where
  "add_data wd h m t =
     (case select_id wd t of
        None \<Rightarrow>
          if max_rowid \<le> largest_rowid t then Inl OperationalError
          else Inr (replace_row
                 \<lparr>row_id = largest_rowid t + 1, work_date = wd,
                  hours_worked = h, month_name = m\<rparr> t)
      | Some i \<Rightarrow>
          Inr (replace_row
                 \<lparr>row_id = i, work_date = wd, hours_worked = h, month_name = m\<rparr> t))"

subsection \<open>The queries\<close>

text \<open>\<^verbatim>\<open>SELECT DISTINCT month_name FROM timesheet ORDER BY month_name\<close>\<close>

definition get_months :: "timesheet \<Rightarrow> string list" where
  "get_months t = sort (remdups (map month_name (rows t)))"

text \<open>
  \<^verbatim>\<open>SELECT work_date, hours_worked, month_name FROM timesheet WHERE month_name = ?
  ORDER BY work_date\<close>; \<^verbatim>\<open>fetchall\<close> gives the list of tuples.
\<close>

definition get_timesheet_by_month :: "string \<Rightarrow> timesheet \<Rightarrow> (string \<times> real \<times> string) list" where
  "get_timesheet_by_month m t =
     map (\<lambda>r. (work_date r, hours_worked r, month_name r))
       (sort_key work_date (filter (\<lambda>r. month_name r = m) (rows t)))"

text \<open>\<^verbatim>\<open>SELECT DISTINCT work_date FROM timesheet ORDER BY work_date\<close>\<close>

definition get_all_dates :: "timesheet \<Rightarrow> string list" where
  "get_all_dates t = sort (remdups (map work_date (rows t)))"

text \<open>
  \<^verbatim>\<open>SELECT hours_worked FROM timesheet WHERE work_date = ?\<close>, then
  \<^verbatim>\<open>row = c.fetchone(); return row[0] if row else 0.0\<close>.
\<close>

definition get_hours_for_date :: "string \<Rightarrow> timesheet \<Rightarrow> real" where
  "get_hours_for_date date_str t =
     (case find (\<lambda>r. work_date r = date_str) (rows t) of
        Some r \<Rightarrow> hours_worked r
      | None \<Rightarrow> 0)"

subsection \<open>Dates: strptime and strftime\<close>

text \<open>
  \<^verbatim>\<open>datetime.strptime(date_str, "%Y-%m-%d")\<close> matches the whole string against
  \<^verbatim>\<open>\d\d\d\d-(1[0-2]|0[1-9]|[1-9])-(3[0-1]|[1-2]\d|0[1-9]|[1-9]| [1-9])\<close>
  and then builds the date, which must exist in the calendar (year 1 to 9999, the day
  within the month). Every failure is a ValueError. The texts this program handles are
  ASCII (dates written by \<^verbatim>\<open>strftime\<close>, month names), and the model reads ASCII
  digits; Python's \<^verbatim>\<open>\d\<close> would also accept the decimal digits of other scripts.
\<close>

record date =
  year :: nat
  month :: nat
  day :: nat

definition is_digit :: "char \<Rightarrow> bool" where
  "is_digit c \<longleftrightarrow> CHR ''0'' \<le> c \<and> c \<le> CHR ''9''"

definition digit_val :: "char \<Rightarrow> nat" where
  "digit_val c = of_char c - of_char CHR ''0''"

definition in_range :: "char \<Rightarrow> char \<Rightarrow> char \<Rightarrow> bool" where
  "in_range lo hi c \<longleftrightarrow> lo \<le> c \<and> c \<le> hi"

text \<open>The month group: \<^verbatim>\<open>1[0-2]|0[1-9]|[1-9]\<close>.\<close>

fun month_token :: "string \<Rightarrow> nat option" where
  "month_token [a, b] =
     (if a = CHR ''1'' \<and> in_range CHR ''0'' CHR ''2'' b then Some (10 + digit_val b)
      else if a = CHR ''0'' \<and> in_range CHR ''1'' CHR ''9'' b then Some (digit_val b)
      else None)"
| "month_token [a] = (if in_range CHR ''1'' CHR ''9'' a then Some (digit_val a) else None)"
| "month_token _ = None"

text \<open>The day group: \<^verbatim>\<open>3[0-1]|[1-2]\d|0[1-9]|[1-9]| [1-9]\<close>.\<close>

fun day_token :: "string \<Rightarrow> nat option" where
  "day_token [a, b] =
     (if a = CHR ''3'' \<and> in_range CHR ''0'' CHR ''1'' b then Some (30 + digit_val b)
      else if in_range CHR ''1'' CHR ''2'' a \<and> is_digit b
        then Some (10 * digit_val a + digit_val b)
      else if a = CHR ''0'' \<and> in_range CHR ''1'' CHR ''9'' b then Some (digit_val b)
      else if a = CHR '' '' \<and> in_range CHR ''1'' CHR ''9'' b then Some (digit_val b)
      else None)"
| "day_token [a] = (if in_range CHR ''1'' CHR ''9'' a then Some (digit_val a) else None)"
| "day_token _ = None"

definition is_leap :: "nat \<Rightarrow> bool" where
  "is_leap y \<longleftrightarrow> y mod 4 = 0 \<and> (y mod 100 \<noteq> 0 \<or> y mod 400 = 0)"

definition days_in_month :: "nat \<Rightarrow> nat \<Rightarrow> nat" where
  "days_in_month y m =
     (if m = 2 then (if is_leap y then 29 else 28)
      else if m = 4 \<or> m = 6 \<or> m = 9 \<or> m = 11 then 30
      else 31)"

definition make_date :: "nat \<Rightarrow> nat \<Rightarrow> nat \<Rightarrow> error + date" where
  "make_date y m d =
     (if 1 \<le> y \<and> y \<le> 9999 \<and> 1 \<le> m \<and> m \<le> 12 \<and> 1 \<le> d \<and> d \<le> days_in_month y m
      then Inr \<lparr>year = y, month = m, day = d\<rparr>
      else Inl ValueError)"

definition strptime :: "string \<Rightarrow> error + date" where
  "strptime s =
     (case s of
        y1 # y2 # y3 # y4 # dash # rest \<Rightarrow>
          if is_digit y1 \<and> is_digit y2 \<and> is_digit y3 \<and> is_digit y4 \<and> dash = CHR ''-''
          then
            (case dropWhile (\<lambda>c. c \<noteq> CHR ''-'') rest of
               [] \<Rightarrow> Inl ValueError
             | _ # dtok \<Rightarrow>
                 (case month_token (takeWhile (\<lambda>c. c \<noteq> CHR ''-'') rest) of
                    None \<Rightarrow> Inl ValueError
                  | Some m \<Rightarrow>
                      (case day_token dtok of
                         None \<Rightarrow> Inl ValueError
                       | Some d \<Rightarrow>
                           make_date
                             (1000 * digit_val y1 + 100 * digit_val y2
                                + 10 * digit_val y3 + digit_val y4) m d)))
          else Inl ValueError
      | _ \<Rightarrow> Inl ValueError)"

text \<open>\<^verbatim>\<open>strftime("%B")\<close>: the full month name, in the C locale Python starts with.\<close>

definition month_names :: "string list" where
  "month_names =
     [''January'', ''February'', ''March'', ''April'', ''May'', ''June'', ''July'',
      ''August'', ''September'', ''October'', ''November'', ''December'']"

definition strftime_B :: "date \<Rightarrow> string" where
  "strftime_B dt = month_names ! (month dt - 1)"

text \<open>The month name a \<^verbatim>\<open>work_date\<close> text stands for, when it is a date.\<close>

definition derived_month :: "string \<Rightarrow> string option" where
  "derived_month wd = (case strptime wd of Inl e \<Rightarrow> None | Inr dt \<Rightarrow> Some (strftime_B dt))"

subsection \<open>update\_hours\_for\_date\<close>

text \<open>
  \<^verbatim>\<open>month_name = datetime.strptime(date_str, "%Y-%m-%d").strftime("%B")\<close>, which raises
  before the statement runs when the text is not a date, and then
  \<^verbatim>\<open>UPDATE timesheet SET hours_worked = ?, month_name = ? WHERE work_date = ?\<close>.
\<close>

definition update_hours_for_date :: "string \<Rightarrow> real \<Rightarrow> timesheet \<Rightarrow> error + timesheet" where
  "update_hours_for_date date_str new_hours t =
     (case strptime date_str of
        Inl e \<Rightarrow> Inl e
      | Inr dt \<Rightarrow>
          Inr (t\<lparr>rows :=
                 map (\<lambda>r. if work_date r = date_str
                           then r\<lparr>hours_worked := new_hours, month_name := strftime_B dt\<rparr>
                           else r)
                     (rows t)\<rparr>))"

subsection \<open>Sequences of calls\<close>

text \<open>
  Repeated calls \<^verbatim>\<open>add_data(d, h, m)\<close> for one date \<open>d\<close>, one call for each pair of the
  list; an exception ends the sequence.
\<close>

fun upserts :: "string \<Rightarrow> (real \<times> string) list \<Rightarrow> timesheet \<Rightarrow> error + timesheet" where
  "upserts d [] t = Inr t"
| "upserts d ((h, m) # hms) t =
     (case add_data d h m t of Inl e \<Rightarrow> Inl e | Inr t' \<Rightarrow> upserts d hms t')"

text \<open>
  The two writing functions as operations on the table. A call that raises has changed
  nothing (\<^verbatim>\<open>strptime\<close> raises before the UPDATE runs, and a failed INSERT is rolled
  back), so the table after a call is the new table, or the old one on an error.
\<close>

datatype write_call =
  Add_data string real string
| Update_hours_for_date string real

fun perform :: "write_call \<Rightarrow> timesheet \<Rightarrow> timesheet" where
  "perform (Add_data wd h m) t = (case add_data wd h m t of Inl e \<Rightarrow> t | Inr t' \<Rightarrow> t')"
| "perform (Update_hours_for_date d h) t =
     (case update_hours_for_date d h t of Inl e \<Rightarrow> t | Inr t' \<Rightarrow> t')"

fun hours_of :: "write_call \<Rightarrow> real" where
  "hours_of (Add_data wd h m) = h"
| "hours_of (Update_hours_for_date d h) = h"

text \<open>
  A call passes the month of its date: what the Log Hours view does, which computes both
  \<^verbatim>\<open>work_date\<close> and \<^verbatim>\<open>month_name\<close> from one \<^verbatim>\<open>input_date\<close>.
  \<^verbatim>\<open>update_hours_for_date\<close> takes no month.
\<close>

fun passes_derived_month :: "write_call \<Rightarrow> bool" where
  "passes_derived_month (Add_data wd h m) \<longleftrightarrow> derived_month wd = Some m"
| "passes_derived_month (Update_hours_for_date d h) \<longleftrightarrow> True"

text \<open>The two invariants of the data model, as predicates on a table.\<close>

definition month_consistent :: "timesheet \<Rightarrow> bool" where
  "month_consistent t \<longleftrightarrow>
     list_all (\<lambda>r. derived_month (work_date r) = Some (month_name r)) (rows t)"

definition hours_nonneg :: "timesheet \<Rightarrow> bool" where
  "hours_nonneg t \<longleftrightarrow> list_all (\<lambda>r. 0 \<le> hours_worked r) (rows t)"

subsection \<open>The login step of main\<close>

text \<open>
  \<^verbatim>\<open>st.session_state\<close> holds three keys once it is initialised; \<open>None\<close> is the state
  of a new browser session, where \<^verbatim>\<open>"logged_in" not in st.session_state\<close>.
\<close>

record session_state =
  logged_in :: bool
  username :: "string option"
  has_edit_access :: bool

text \<open>What one run of the script puts on the page, and how the run ends.\<close>

datatype element =
  Error string
| Title string
| Text_input string
| Button string

datatype ending =
  Stop
| Rerun
| Views

text \<open>
  Steps 1 to 3 of \<^verbatim>\<open>main\<close>. The arguments are the environment variable
  \<^verbatim>\<open>TIMESHEET_PASSWORD\<close> (\<open>None\<close> when unset), the session state, the contents of the
  two text inputs, and whether the Login button was pressed. The result is the session
  state after the run, the elements rendered, and the ending: \<^verbatim>\<open>st.stop()\<close>,
  \<^verbatim>\<open>st.rerun()\<close>, or \<open>Views\<close> when the run goes on to step 4 (the menu and the three
  views), which is not modelled further here.
\<close>

definition login_form :: "element list" where
  "login_form =
     [Title ''Login to Timesheet App'', Text_input ''Username'', Text_input ''Password'',
      Button ''Login'']"

definition main :: "string option \<Rightarrow> session_state option \<Rightarrow> string \<Rightarrow> string \<Rightarrow> bool
    \<Rightarrow> session_state option \<times> element list \<times> ending" where
  "main password_env ss input_user input_pass login_pressed =
     (if password_env = None \<or> password_env = Some []
      then (ss, [Error ''No password found in environment variable 'TIMESHEET_PASSWORD'.''], Stop)
      else
        let s = (case ss of
                   None \<Rightarrow> \<lparr>logged_in = False, username = None, has_edit_access = False\<rparr>
                 | Some s \<Rightarrow> s)
        in
          if \<not> logged_in s then
            if login_pressed then
              if input_user = ''raisediversity'' \<and> Some input_pass = password_env
              then (Some (s\<lparr>logged_in := True, username := Some input_user,
                             has_edit_access := True\<rparr>),
                    login_form, Rerun)
              else (Some s,
                    login_form @ [Error ''Invalid credentials. Please try again.''], Stop)
            else (Some s, login_form, Stop)
          else (Some s, [], Views))"

text \<open>The three states of the specification's session state machine.\<close>

datatype auth_state = LoggedOut | LoggedIn_Basic | LoggedIn_Editor

definition auth_state_of :: "session_state option \<Rightarrow> auth_state" where
  "auth_state_of ss =
     (case ss of
        None \<Rightarrow> LoggedOut
      | Some s \<Rightarrow>
          if \<not> logged_in s then LoggedOut
          else if has_edit_access s then LoggedIn_Editor
          else LoggedIn_Basic)"

subsection \<open>An example table\<close>

text \<open>
  The table after logging 8 hours for 5 January 2024 and 4 hours for 10 February 2024,
  used to instantiate the theorems below.
\<close>

definition january_entry :: row where
  "january_entry =
     \<lparr>row_id = 1, work_date = ''2024-01-05'', hours_worked = 8, month_name = ''January''\<rparr>"

definition february_entry :: row where
  "february_entry =
     \<lparr>row_id = 2, work_date = ''2024-02-10'', hours_worked = 4, month_name = ''February''\<rparr>"

definition example_timesheet :: timesheet where
  "example_timesheet = \<lparr>rows = [january_entry, february_entry], sqlite_sequence = 2\<rparr>"

subsection \<open>Rules for evaluating the model on concrete inputs\<close>

lemmas example_simps = january_entry_def february_entry_def example_timesheet_def

lemmas date_simps = strptime_def is_digit_def digit_val_def in_range_def make_date_def
  days_in_month_def is_leap_def derived_month_def strftime_B_def month_names_def

lemmas table_simps = add_data_def select_id_def largest_rowid_def max_rowid_def
  replace_row_def empty_timesheet_def

subsection \<open>Facts about lists\<close>

lemma find_unique:
  "distinct (map f xs) \<Longrightarrow> x \<in> set xs \<Longrightarrow> find (\<lambda>r. f r = f x) xs = Some x"
proof (induction xs)
  case Nil then show ?case by simp
next
  case (Cons a xs)
  show ?case
  proof (cases "x = a")
    case True then show ?thesis by simp
  next
    case False
    with Cons.prems have "x \<in> set xs" by simp
    then have "f x \<in> f ` set xs" by (rule imageI)
    with Cons.prems have "f a \<noteq> f x" by auto
    with Cons \<open>x \<in> set xs\<close> show ?thesis by simp
  qed
qed

lemma find_insort_only:
  "\<forall>y\<in>set xs. \<not> P y \<Longrightarrow> P x \<Longrightarrow> find P (insort_key g x xs) = Some x"
  by (induction xs) simp_all

lemma filter_insort_only:
  "\<forall>y\<in>set xs. \<not> P y \<Longrightarrow> P x \<Longrightarrow> filter P (insort_key g x xs) = [x]"
  by (induction xs) simp_all

lemma fold_max_ge_init: "a \<le> fold max xs (a::int)"
proof (induction xs arbitrary: a)
  case Nil show ?case by simp
next
  case (Cons y ys)
  have "a \<le> max y a" by simp
  also have "\<dots> \<le> fold max ys (max y a)" by (rule Cons.IH)
  finally show ?case by simp
qed

lemma fold_max_ge_mem: "x \<in> set xs \<Longrightarrow> x \<le> fold max xs (a::int)"
proof (induction xs arbitrary: a)
  case Nil then show ?case by simp
next
  case (Cons y ys)
  show ?case
  proof (cases "x = y")
    case True
    have "y \<le> max y a" by simp
    also have "\<dots> \<le> fold max ys (max y a)" by (rule fold_max_ge_init)
    finally show ?thesis using True by simp
  next
    case False with Cons show ?thesis by simp
  qed
qed

lemma count_list_sort_remdups:
  "count_list (sort (remdups xs)) x = (if x \<in> set xs then 1 else 0)"
proof -
  have "mset (sort (remdups xs)) = mset (remdups xs)" by simp
  then have "count (mset (sort (remdups xs))) x = count (mset (remdups xs)) x"
    by (rule arg_cong)
  then have "count_list (sort (remdups xs)) x = count_list (remdups xs) x"
    by (simp only: count_mset)
  also have "\<dots> = (if x \<in> set xs then 1 else 0)"
    using distinct_remdups[of xs] by (simp add: distinct_count_atmost_1 count_mset)
  finally show ?thesis .
qed

subsection \<open>Facts about replace\_row and add\_data\<close>

lemma set_rows_replace_row:
  "set (rows (replace_row r t)) =
     insert r {x \<in> set (rows t). row_id x \<noteq> row_id r \<and> work_date x \<noteq> work_date r}"
  by (auto simp: replace_row_def set_insort_key)

lemma filter_date_replace_row:
  "filter (\<lambda>x. work_date x = work_date r) (rows (replace_row r t)) = [r]"
  unfolding replace_row_def by (simp add: filter_insort_only)

lemma find_date_replace_row:
  "find (\<lambda>x. work_date x = work_date r) (rows (replace_row r t)) = Some r"
  unfolding replace_row_def by (simp add: find_insort_only)

lemma row_id_le_largest: "x \<in> set (rows t) \<Longrightarrow> row_id x \<le> largest_rowid t"
  unfolding largest_rowid_def by (rule fold_max_ge_mem) simp

lemma select_id_None: "select_id d t = None \<longleftrightarrow> d \<notin> work_date ` set (rows t)"
  by (auto simp: select_id_def find_None_iff)

lemma add_data_result:
  assumes "d \<in> work_date ` set (rows t) \<or> largest_rowid t < max_rowid"
  shows "\<exists>i. add_data d h m t =
        Inr (replace_row \<lparr>row_id = i, work_date = d, hours_worked = h, month_name = m\<rparr> t)"
proof (cases "select_id d t")
  case None
  then have "d \<notin> work_date ` set (rows t)" by (simp add: select_id_None)
  with assms have "largest_rowid t < max_rowid" by simp
  with None show ?thesis
    by (intro exI[of _ "largest_rowid t + 1"]) (simp add: add_data_def)
next
  case (Some a)
  then show ?thesis by (intro exI[of _ a]) (simp add: add_data_def)
qed

lemma add_data_Inr:
  "add_data d h m t = Inr t' \<Longrightarrow>
   \<exists>i. t' = replace_row \<lparr>row_id = i, work_date = d, hours_worked = h, month_name = m\<rparr> t"
  by (cases "select_id d t") (auto simp: add_data_def split: if_splits)

lemma replace_row_has_date: "work_date r \<in> work_date ` set (rows (replace_row r t))"
  by (simp add: set_rows_replace_row)

subsection \<open>The schema's constraints are invariant\<close>

text \<open>
  The empty table satisfies the two constraints, and both writing functions keep them;
  so every table the program can produce satisfies them. Inserting a date the table does
  not have adds one row with a fresh id and deletes none.
\<close>

lemma distinct_map_insort_key:
  "distinct (map f (insort_key k x xs)) \<longleftrightarrow> f x \<notin> f ` set xs \<and> distinct (map f xs)"
  by (induction xs) (auto simp: set_insort_key)

lemma constraints_hold_empty: "constraints_hold empty_timesheet"
  by (simp add: constraints_hold_def empty_timesheet_def)

lemma constraints_hold_replace_row:
  assumes "constraints_hold t"
  shows "constraints_hold (replace_row r t)"
proof -
  let ?ys = "filter (\<lambda>x. row_id x \<noteq> row_id r \<and> work_date x \<noteq> work_date r) (rows t)"
  have "distinct (map row_id ?ys)" and "distinct (map work_date ?ys)"
    using assms by (simp_all add: constraints_hold_def distinct_map_filter)
  moreover have "row_id r \<notin> row_id ` set ?ys" and "work_date r \<notin> work_date ` set ?ys"
    by auto
  ultimately show ?thesis
    by (simp add: constraints_hold_def replace_row_def distinct_map_insort_key)
qed

lemma constraints_hold_add_data:
  "constraints_hold t \<Longrightarrow> add_data d h m t = Inr t' \<Longrightarrow> constraints_hold t'"
  using add_data_Inr[of d h m t t'] by (auto simp: constraints_hold_replace_row)

lemma constraints_hold_update:
  assumes "constraints_hold t" and "update_hours_for_date d h t = Inr t'"
  shows "constraints_hold t'"
proof (cases "strptime d")
  case (Inl e)
  with assms(2) show ?thesis by (simp add: update_hours_for_date_def)
next
  case (Inr dt)
  with assms(2) have r: "rows t' = map (\<lambda>r. if work_date r = d
      then r\<lparr>hours_worked := h, month_name := strftime_B dt\<rparr> else r) (rows t)"
    by (auto simp: update_hours_for_date_def)
  have "map row_id (rows t') = map row_id (rows t)"
    and "map work_date (rows t') = map work_date (rows t)"
    unfolding r by (simp_all add: comp_def if_distrib cong: if_cong)
  with assms(1) show ?thesis by (simp add: constraints_hold_def)
qed

lemma constraints_hold_perform: "constraints_hold t \<Longrightarrow> constraints_hold (perform w t)"
  by (cases w)
    (auto split: sum.splits intro: constraints_hold_add_data constraints_hold_update)

lemma constraints_hold_after_writes:
  "constraints_hold t \<Longrightarrow> constraints_hold (fold perform ws t)"
  by (induction ws arbitrary: t) (simp_all add: constraints_hold_perform)

lemma add_data_new_date:
  assumes "d \<notin> work_date ` set (rows t)" and "largest_rowid t < max_rowid"
  shows "\<exists>t'. add_data d h m t = Inr t' \<and>
           set (rows t') =
             insert \<lparr>row_id = largest_rowid t + 1, work_date = d, hours_worked = h,
                     month_name = m\<rparr> (set (rows t)) \<and>
           largest_rowid t + 1 \<notin> row_id ` set (rows t)"
proof -
  let ?n = "\<lparr>row_id = largest_rowid t + 1, work_date = d, hours_worked = h, month_name = m\<rparr>"
  from assms(1) have "select_id d t = None" by (simp add: select_id_None)
  with assms(2) have a: "add_data d h m t = Inr (replace_row ?n t)"
    by (simp add: add_data_def)
  have f: "largest_rowid t + 1 \<notin> row_id ` set (rows t)"
  proof
    assume "largest_rowid t + 1 \<in> row_id ` set (rows t)"
    then obtain x where "x \<in> set (rows t)" and "row_id x = largest_rowid t + 1" by auto
    with row_id_le_largest[of x t] show False by simp
  qed
  then have fresh: "row_id x \<noteq> largest_rowid t + 1" if "x \<in> set (rows t)" for x
    using that by (metis imageI)
  have "{x \<in> set (rows t). row_id x \<noteq> row_id ?n \<and> work_date x \<noteq> work_date ?n} = set (rows t)"
    using fresh assms(1) by auto
  then have "set (rows (replace_row ?n t)) = insert ?n (set (rows t))"
    by (simp add: set_rows_replace_row)
  with a f show ?thesis by blast
qed

lemma add_data_full:
  "d \<notin> work_date ` set (rows t) \<Longrightarrow> max_rowid \<le> largest_rowid t \<Longrightarrow>
   add_data d h m t = Inl OperationalError"
  by (simp add: add_data_def select_id_None[symmetric])

lemma constraints_hold_example: "constraints_hold example_timesheet"
  by (simp add: constraints_hold_def example_simps)

subsection \<open>Writing and reading back\<close>

lemma find_filter_head:
  "find P xs = (case filter P xs of [] \<Rightarrow> None | x # ys \<Rightarrow> Some x)"
  by (induction xs) simp_all

lemma get_hours_of_filter:
  "filter (\<lambda>r. work_date r = d) (rows t) = r # rs \<Longrightarrow> get_hours_for_date d t = hours_worked r"
  by (simp add: get_hours_for_date_def find_filter_head)

lemma upserts_single:
  "filter (\<lambda>x. work_date x = d) (rows t) = [r] \<Longrightarrow>
   \<exists>t' r'. upserts d hms t = Inr t' \<and> filter (\<lambda>x. work_date x = d) (rows t') = [r'] \<and>
     hours_worked r' = fst (last ((hours_worked r, month_name r) # hms))"
proof (induction hms arbitrary: t r)
  case Nil then show ?case by simp
next
  case (Cons p hms)
  obtain h m where p: "p = (h, m)" by (cases p)
  from Cons.prems have "r \<in> set (filter (\<lambda>x. work_date x = d) (rows t))" by simp
  then have "d \<in> work_date ` set (rows t)" by auto
  then have "d \<in> work_date ` set (rows t) \<or> largest_rowid t < max_rowid" by (rule disjI1)
  from add_data_result[OF this, of h m]
  obtain i where a: "add_data d h m t =
      Inr (replace_row \<lparr>row_id = i, work_date = d, hours_worked = h, month_name = m\<rparr> t)"
    by blast
  let ?n = "\<lparr>row_id = i, work_date = d, hours_worked = h, month_name = m\<rparr>"
  have one: "filter (\<lambda>x. work_date x = d) (rows (replace_row ?n t)) = [?n]"
    using filter_date_replace_row[of ?n t] by simp
  from Cons.IH[OF one] obtain t' r' where
    "upserts d hms (replace_row ?n t) = Inr t'"
    "filter (\<lambda>x. work_date x = d) (rows t') = [r']"
    "hours_worked r' = fst (last ((h, m) # hms))"
    by auto
  with p a show ?case by auto
qed

text \<open>
  Claim C1. For every date \<open>D\<close> and hours \<open>H\<close>, \<^verbatim>\<open>add_data\<close> followed by
  \<^verbatim>\<open>get_hours_for_date\<close> returns \<open>H\<close>; and after any further number of
  \<^verbatim>\<open>add_data\<close> calls for \<open>D\<close>, \<^verbatim>\<open>get_hours_for_date\<close> returns the hours of the last
  call, the result of \<^verbatim>\<open>get_all_dates\<close> contains \<open>D\<close> exactly once, and the table holds
  exactly one row of that date.

  The call must be able to succeed: either the date already has a row (its id is reused)
  or the rowid counter has not reached the largest 64-bit value. The statement holds for
  every text \<open>D\<close>, every real \<open>H\<close> and every month text \<open>M\<close>, and it needs no assumption
  on the table, since REPLACE removes every row of the date before it inserts.
\<close>

theorem upsert_then_get_hours:
  assumes "D \<in> work_date ` set (rows t) \<or> largest_rowid t < max_rowid"
  shows "\<exists>t1. add_data D H M t = Inr t1 \<and> get_hours_for_date D t1 = H \<and>
           (\<forall>hms. \<exists>t2. upserts D hms t1 = Inr t2 \<and>
              get_hours_for_date D t2 = fst (last ((H, M) # hms)) \<and>
              count_list (get_all_dates t2) D = 1 \<and>
              length (filter (\<lambda>r. work_date r = D) (rows t2)) = 1)"
proof -
  from add_data_result[OF assms, of H M]
  obtain i where a: "add_data D H M t =
      Inr (replace_row \<lparr>row_id = i, work_date = D, hours_worked = H, month_name = M\<rparr> t)"
    by blast
  let ?r = "\<lparr>row_id = i, work_date = D, hours_worked = H, month_name = M\<rparr>"
  let ?t1 = "replace_row ?r t"
  have one: "filter (\<lambda>r. work_date r = D) (rows ?t1) = [?r]"
    using filter_date_replace_row[of ?r t] by simp
  then have g: "get_hours_for_date D ?t1 = H"
    using get_hours_of_filter[of D ?t1 ?r "[]"] by simp
  have rep: "\<exists>t2. upserts D hms ?t1 = Inr t2 \<and>
              get_hours_for_date D t2 = fst (last ((H, M) # hms)) \<and>
              count_list (get_all_dates t2) D = 1 \<and>
              length (filter (\<lambda>r. work_date r = D) (rows t2)) = 1" for hms
  proof -
    from upserts_single[OF one, of hms] obtain t2 r' where
      u: "upserts D hms ?t1 = Inr t2" and
      f: "filter (\<lambda>r. work_date r = D) (rows t2) = [r']" and
      h: "hours_worked r' = fst (last ((H, M) # hms))"
      by auto
    from f h have gh: "get_hours_for_date D t2 = fst (last ((H, M) # hms))"
      using get_hours_of_filter[of D t2 r' "[]"] by simp
    from f have "r' \<in> set (filter (\<lambda>r. work_date r = D) (rows t2))" by simp
    then have "D \<in> work_date ` set (rows t2)" by auto
    then have c: "count_list (get_all_dates t2) D = 1"
      by (simp add: get_all_dates_def count_list_sort_remdups)
    from f have l: "length (filter (\<lambda>r. work_date r = D) (rows t2)) = 1" by simp
    from u gh c l show ?thesis by blast
  qed
  from a g rep show ?thesis by blast
qed

theorem upsert_then_get_hours_witness:
  "largest_rowid empty_timesheet < max_rowid \<and>
   (\<exists>t1. add_data ''2024-01-05'' 8 ''January'' empty_timesheet = Inr t1 \<and>
      get_hours_for_date ''2024-01-05'' t1 = 8 \<and>
      (\<forall>hms. \<exists>t2. upserts ''2024-01-05'' hms t1 = Inr t2 \<and>
         get_hours_for_date ''2024-01-05'' t2 = fst (last ((8, ''January'') # hms)) \<and>
         count_list (get_all_dates t2) ''2024-01-05'' = 1 \<and>
         length (filter (\<lambda>r. work_date r = ''2024-01-05'') (rows t2)) = 1))"
proof -
  have h: "largest_rowid empty_timesheet < max_rowid"
    by (simp add: largest_rowid_def empty_timesheet_def max_rowid_def)
  then have "''2024-01-05'' \<in> work_date ` set (rows empty_timesheet) \<or>
      largest_rowid empty_timesheet < max_rowid" by (rule disjI2)
  from upsert_then_get_hours[OF this, of 8 "''January''"] h show ?thesis by (rule conjI[rotated])
qed

subsection \<open>The id of a replaced row\<close>

lemma select_id_unique:
  "constraints_hold t \<Longrightarrow> r \<in> set (rows t) \<Longrightarrow> select_id (work_date r) t = Some (row_id r)"
  by (simp add: select_id_def constraints_hold_def find_unique)

lemma others_unique:
  assumes "constraints_hold t" "r \<in> set (rows t)"
  shows "{x \<in> set (rows t). row_id x \<noteq> row_id r \<and> work_date x \<noteq> work_date r} = set (rows t) - {r}"
proof -
  have "x = r" if "x \<in> set (rows t)" "row_id x = row_id r \<or> work_date x = work_date r" for x
    using that assms unfolding constraints_hold_def
    by (auto simp: distinct_map dest: inj_onD)
  then show ?thesis by auto
qed

lemma select_id_replace_row: "select_id (work_date r) (replace_row r t) = Some (row_id r)"
  by (simp add: select_id_def find_date_replace_row)

lemma add_data_reuses_id:
  "select_id d t = Some i \<Longrightarrow>
   add_data d h m t = Inr (replace_row \<lparr>row_id = i, work_date = d, hours_worked = h, month_name = m\<rparr> t)"
  by (simp add: add_data_def)

lemma upserts_keep_id:
  "select_id d t = Some i \<Longrightarrow> \<exists>t'. upserts d hms t = Inr t' \<and> select_id d t' = Some i"
proof (induction hms arbitrary: t)
  case Nil then show ?case by simp
next
  case (Cons p hms)
  obtain h m where p: "p = (h, m)" by (cases p)
  let ?r = "\<lparr>row_id = i, work_date = d, hours_worked = h, month_name = m\<rparr>"
  have a: "add_data d h m t = Inr (replace_row ?r t)"
    using Cons.prems by (rule add_data_reuses_id)
  have "select_id d (replace_row ?r t) = Some i"
    using select_id_replace_row[of ?r t] by simp
  from Cons.IH[OF this] show ?case using p a by simp
qed

text \<open>
  Claim C10. When \<^verbatim>\<open>add_data\<close> replaces the row of a date, the row keeps its id: the
  subquery selects the id of the existing row and the replacing insert uses it. For a row
  \<open>r\<close> of a table that satisfies its constraints, the call succeeds, the new row
  carries \<open>row_id r\<close>, every other row is untouched, and any number of further calls for
  the same date leave the date's id at \<open>row_id r\<close>.
\<close>

theorem upsert_preserves_id:
  assumes "constraints_hold t" and "r \<in> set (rows t)"
  shows "\<exists>t'. add_data (work_date r) H M t = Inr t' \<and>
           set (rows t') =
             insert \<lparr>row_id = row_id r, work_date = work_date r, hours_worked = H,
                     month_name = M\<rparr> (set (rows t) - {r}) \<and>
           select_id (work_date r) t' = Some (row_id r) \<and>
           (\<forall>hms. \<exists>t2. upserts (work_date r) hms t' = Inr t2 \<and>
              select_id (work_date r) t2 = Some (row_id r))"
proof -
  let ?n = "\<lparr>row_id = row_id r, work_date = work_date r, hours_worked = H, month_name = M\<rparr>"
  have s: "select_id (work_date r) t = Some (row_id r)"
    using assms by (rule select_id_unique)
  then have a: "add_data (work_date r) H M t = Inr (replace_row ?n t)"
    by (rule add_data_reuses_id)
  have rows: "set (rows (replace_row ?n t)) = insert ?n (set (rows t) - {r})"
    using others_unique[OF assms] by (simp add: set_rows_replace_row)
  have s': "select_id (work_date r) (replace_row ?n t) = Some (row_id r)"
    using select_id_replace_row[of ?n t] by simp
  have "\<forall>hms. \<exists>t2. upserts (work_date r) hms (replace_row ?n t) = Inr t2 \<and>
              select_id (work_date r) t2 = Some (row_id r)"
    using upserts_keep_id[OF s'] by blast
  with a rows s' show ?thesis by blast
qed

theorem upsert_preserves_id_witness:
  "constraints_hold example_timesheet \<and> january_entry \<in> set (rows example_timesheet) \<and>
   (\<exists>t'. add_data ''2024-01-05'' (13 / 2) ''January'' example_timesheet = Inr t' \<and>
      select_id ''2024-01-05'' t' = Some 1 \<and>
      (\<forall>hms. \<exists>t2. upserts ''2024-01-05'' hms t' = Inr t2 \<and>
         select_id ''2024-01-05'' t2 = Some 1))"
proof -
  have h1: "constraints_hold example_timesheet" by (rule constraints_hold_example)
  have h2: "january_entry \<in> set (rows example_timesheet)" by (simp add: example_timesheet_def)
  have d: "work_date january_entry = ''2024-01-05''" and i: "row_id january_entry = 1"
    by (simp_all add: january_entry_def)
  from upsert_preserves_id[OF h1 h2, of "13 / 2" "''January''"]
  have "\<exists>t'. add_data ''2024-01-05'' (13 / 2) ''January'' example_timesheet = Inr t' \<and>
      select_id ''2024-01-05'' t' = Some 1 \<and>
      (\<forall>hms. \<exists>t2. upserts ''2024-01-05'' hms t' = Inr t2 \<and>
         select_id ''2024-01-05'' t2 = Some 1)"
    unfolding d i by blast
  with h1 h2 show ?thesis by blast
qed

subsection \<open>Updating a date that has no row\<close>

text \<open>
  Claim C3. For a date \<open>D\<close> that has no row, \<^verbatim>\<open>update_hours_for_date\<close> raises nothing
  and returns the table as it was: no row is created and nothing changes, whatever the
  hours. \<open>D\<close> is a date, that is, a text \<^verbatim>\<open>strptime\<close> accepts.
\<close>

theorem update_missing_date_noop:
  assumes "strptime D = Inr dt" and "D \<notin> work_date ` set (rows t)"
  shows "update_hours_for_date D H t = Inr t"
proof -
  have "map (\<lambda>r. if work_date r = D
                  then r\<lparr>hours_worked := H, month_name := strftime_B dt\<rparr> else r) (rows t)
        = rows t"
    using assms(2) by (intro map_idI) auto
  with assms(1) show ?thesis by (simp add: update_hours_for_date_def)
qed

theorem update_missing_date_noop_witness:
  "strptime ''2099-12-31'' = Inr \<lparr>year = 2099, month = 12, day = 31\<rparr> \<and>
   ''2099-12-31'' \<notin> work_date ` set (rows example_timesheet) \<and>
   update_hours_for_date ''2099-12-31'' 5 example_timesheet = Inr example_timesheet"
proof -
  have h1: "strptime ''2099-12-31'' = Inr \<lparr>year = 2099, month = 12, day = 31\<rparr>"
    by (simp add: date_simps)
  have h2: "''2099-12-31'' \<notin> work_date ` set (rows example_timesheet)"
    by (simp add: example_simps)
  from h1 h2 update_missing_date_noop[OF h1 h2, of 5] show ?thesis by blast
qed

subsection \<open>Properties of the queries\<close>

text \<open>
  Claim C4. \<^verbatim>\<open>get_months\<close> returns exactly the month names present in the table, each
  once, in ascending lexicographic order; on the empty table it returns the empty list.
\<close>

theorem get_months_sorted_distinct:
  "set (get_months t) = month_name ` set (rows t) \<and>
   distinct (get_months t) \<and> sorted (get_months t) \<and>
   get_months empty_timesheet = []"
  by (simp add: get_months_def empty_timesheet_def)

text \<open>
  Claim C5. \<^verbatim>\<open>get_timesheet_by_month M\<close> returns exactly the entries whose stored
  \<^verbatim>\<open>month_name\<close> is \<open>M\<close> (as a multiset: each matching row once), in ascending
  order of \<^verbatim>\<open>work_date\<close>; for a month no row has, it returns the empty list.
\<close>

theorem get_timesheet_by_month_exact:
  "mset (get_timesheet_by_month M t) =
     image_mset (\<lambda>r. (work_date r, hours_worked r, month_name r))
       (filter_mset (\<lambda>r. month_name r = M) (mset (rows t))) \<and>
   sorted (map fst (get_timesheet_by_month M t)) \<and>
   (M \<notin> month_name ` set (rows t) \<longrightarrow> get_timesheet_by_month M t = [])"
proof (intro conjI impI)
  show "mset (get_timesheet_by_month M t) =
     image_mset (\<lambda>r. (work_date r, hours_worked r, month_name r))
       (filter_mset (\<lambda>r. month_name r = M) (mset (rows t)))"
    by (simp add: get_timesheet_by_month_def)
  have "map fst (get_timesheet_by_month M t) =
        map work_date (sort_key work_date (filter (\<lambda>r. month_name r = M) (rows t)))"
    by (simp add: get_timesheet_by_month_def comp_def)
  then show "sorted (map fst (get_timesheet_by_month M t))" by simp
next
  assume "M \<notin> month_name ` set (rows t)"
  then have "filter (\<lambda>r. month_name r = M) (rows t) = []"
    by (auto simp: filter_empty_conv)
  then show "get_timesheet_by_month M t = []" by (simp add: get_timesheet_by_month_def)
qed

theorem get_timesheet_by_month_exact_witness:
  "''March'' \<notin> month_name ` set (rows example_timesheet) \<and>
   get_timesheet_by_month ''March'' example_timesheet = [] \<and>
   mset (get_timesheet_by_month ''January'' example_timesheet) = {#(''2024-01-05'', 8, ''January'')#} \<and>
   sorted (map fst (get_timesheet_by_month ''January'' example_timesheet))"
proof -
  have h: "''March'' \<notin> month_name ` set (rows example_timesheet)"
    by (simp add: example_simps)
  from get_timesheet_by_month_exact[of "''March''" example_timesheet] h
  have a: "get_timesheet_by_month ''March'' example_timesheet = []" by blast
  from get_timesheet_by_month_exact[of "''January''" example_timesheet]
  have b: "mset (get_timesheet_by_month ''January'' example_timesheet) =
      {#(''2024-01-05'', 8, ''January'')#}"
    and c: "sorted (map fst (get_timesheet_by_month ''January'' example_timesheet))"
    by (simp_all add: example_simps)
  from h a b c show ?thesis by blast
qed

text \<open>
  Claim C6. For a date with no row, \<^verbatim>\<open>get_hours_for_date\<close> returns the default 0.0;
  for a date with a row, it returns that row's \<^verbatim>\<open>hours_worked\<close>. The function is
  total: no case raises.
\<close>

theorem get_hours_default_or_stored:
  "(D \<notin> work_date ` set (rows t) \<longrightarrow> get_hours_for_date D t = 0) \<and>
   (constraints_hold t \<longrightarrow> (\<forall>r\<in>set (rows t). get_hours_for_date (work_date r) t = hours_worked r))"
proof (intro conjI impI ballI)
  assume "D \<notin> work_date ` set (rows t)"
  then have "find (\<lambda>r. work_date r = D) (rows t) = None" by (auto simp: find_None_iff)
  then show "get_hours_for_date D t = 0" by (simp add: get_hours_for_date_def)
next
  fix r assume "constraints_hold t" "r \<in> set (rows t)"
  then have "find (\<lambda>x. work_date x = work_date r) (rows t) = Some r"
    by (simp add: constraints_hold_def find_unique)
  then show "get_hours_for_date (work_date r) t = hours_worked r"
    by (simp add: get_hours_for_date_def)
qed

theorem get_hours_default_or_stored_witness:
  "''2099-12-31'' \<notin> work_date ` set (rows example_timesheet) \<and>
   get_hours_for_date ''2099-12-31'' example_timesheet = 0 \<and>
   constraints_hold example_timesheet \<and>
   february_entry \<in> set (rows example_timesheet) \<and>
   get_hours_for_date ''2024-02-10'' example_timesheet = 4"
proof -
  have h1: "''2099-12-31'' \<notin> work_date ` set (rows example_timesheet)"
    by (simp add: example_simps)
  have h2: "constraints_hold example_timesheet" by (rule constraints_hold_example)
  have h3: "february_entry \<in> set (rows example_timesheet)" by (simp add: example_timesheet_def)
  note inst = get_hours_default_or_stored[of "''2099-12-31''" example_timesheet]
  from inst h1 have a: "get_hours_for_date ''2099-12-31'' example_timesheet = 0" by blast
  from inst h2 h3
  have "get_hours_for_date (work_date february_entry) example_timesheet =
      hours_worked february_entry" by blast
  then have b: "get_hours_for_date ''2024-02-10'' example_timesheet = 4"
    by (simp add: february_entry_def)
  from h1 a h2 h3 b show ?thesis by blast
qed

subsection \<open>The invariants of the data model\<close>

lemma list_all_rows_replace_row:
  "list_all P (rows t) \<Longrightarrow> P r \<Longrightarrow> list_all P (rows (replace_row r t))"
  by (auto simp: replace_row_def list_all_iff set_insort_key)

lemma list_all_rows_update:
  assumes "list_all P (rows t)" and "update_hours_for_date d h t = Inr t'"
    and "\<And>r dt. P r \<Longrightarrow> work_date r = d \<Longrightarrow> strptime d = Inr dt \<Longrightarrow>
           P (r\<lparr>hours_worked := h, month_name := strftime_B dt\<rparr>)"
  shows "list_all P (rows t')"
proof (cases "strptime d")
  case (Inl e)
  with assms(2) show ?thesis by (simp add: update_hours_for_date_def)
next
  case (Inr dt)
  with assms(2) have "rows t' = map (\<lambda>r. if work_date r = d
      then r\<lparr>hours_worked := h, month_name := strftime_B dt\<rparr> else r) (rows t)"
    by (auto simp: update_hours_for_date_def)
  with assms(1) assms(3)[OF _ _ Inr] show ?thesis
    by (auto simp: list_all_iff)
qed

lemma month_consistent_perform:
  assumes "month_consistent t" and "passes_derived_month w"
  shows "month_consistent (perform w t)"
proof (cases w)
  case (Add_data wd h m)
  show ?thesis
  proof (cases "add_data wd h m t")
    case (Inl e)
    with Add_data assms(1) show ?thesis by simp
  next
    case (Inr t')
    then obtain i where "t' = replace_row \<lparr>row_id = i, work_date = wd, hours_worked = h, month_name = m\<rparr> t"
      by (auto simp: add_data_def split: option.splits if_splits)
    with assms Add_data Inr show ?thesis
      by (simp add: month_consistent_def list_all_rows_replace_row)
  qed
next
  case (Update_hours_for_date d h)
  show ?thesis
  proof (cases "update_hours_for_date d h t")
    case (Inl e)
    with Update_hours_for_date assms(1) show ?thesis by simp
  next
    case (Inr t')
    have "list_all (\<lambda>r. derived_month (work_date r) = Some (month_name r)) (rows t')"
      using assms(1)[unfolded month_consistent_def] Inr
      by (rule list_all_rows_update) (simp add: derived_month_def)
    with Update_hours_for_date Inr show ?thesis by (simp add: month_consistent_def)
  qed
qed

lemma hours_nonneg_perform:
  assumes "hours_nonneg t" and "0 \<le> hours_of w"
  shows "hours_nonneg (perform w t)"
proof (cases w)
  case (Add_data wd h m)
  show ?thesis
  proof (cases "add_data wd h m t")
    case (Inl e)
    with Add_data assms(1) show ?thesis by simp
  next
    case (Inr t')
    then obtain i where "t' = replace_row \<lparr>row_id = i, work_date = wd, hours_worked = h, month_name = m\<rparr> t"
      by (auto simp: add_data_def split: option.splits if_splits)
    with assms Add_data Inr show ?thesis
      by (simp add: hours_nonneg_def list_all_rows_replace_row)
  qed
next
  case (Update_hours_for_date d h)
  show ?thesis
  proof (cases "update_hours_for_date d h t")
    case (Inl e)
    with Update_hours_for_date assms(1) show ?thesis by simp
  next
    case (Inr t')
    have "list_all (\<lambda>r. 0 \<le> hours_worked r) (rows t')"
      using assms(1)[unfolded hours_nonneg_def] Inr
      by (rule list_all_rows_update) (use assms(2) Update_hours_for_date in simp)
    with Update_hours_for_date Inr show ?thesis by (simp add: hours_nonneg_def)
  qed
qed

text \<open>
  Claim C2, as stated: after every write, every stored \<^verbatim>\<open>month_name\<close> is the month of
  its \<^verbatim>\<open>work_date\<close>, and no storage operation can set one without the other. This
  fails for \<^verbatim>\<open>add_data\<close>, which takes \<^verbatim>\<open>month_name\<close> as an argument and stores it
  unchecked: the call below stores March beside a date in January.
\<close>

theorem add_data_month_mismatch:
  "add_data ''2024-01-05'' 8 ''March'' empty_timesheet =
     Inr \<lparr>rows = [\<lparr>row_id = 1, work_date = ''2024-01-05'', hours_worked = 8,
                    month_name = ''March''\<rparr>], sqlite_sequence = 1\<rparr> \<and>
   derived_month ''2024-01-05'' = Some ''January'' \<and>
   \<not> month_consistent
       \<lparr>rows = [\<lparr>row_id = 1, work_date = ''2024-01-05'', hours_worked = 8,
                  month_name = ''March''\<rparr>], sqlite_sequence = 1\<rparr>"
  by (simp add: table_simps month_consistent_def date_simps)

text \<open>
  Claim C2, amended. \<^verbatim>\<open>add_data\<close> stores the month name its caller passes, and
  \<^verbatim>\<open>update_hours_for_date\<close> recomputes the month name from the date. So when every
  stored \<^verbatim>\<open>month_name\<close> is the month of its \<^verbatim>\<open>work_date\<close>, this still holds after
  any sequence of writes in which each \<^verbatim>\<open>add_data\<close> call passes the month of the date
  it passes (as the Log Hours view does).
\<close>

theorem month_consistent_after_writes:
  assumes "month_consistent t" and "list_all passes_derived_month ws"
  shows "month_consistent (fold perform ws t)"
  using assms by (induction ws arbitrary: t) (simp_all add: month_consistent_perform)

theorem month_consistent_after_writes_witness:
  "month_consistent example_timesheet \<and>
   list_all passes_derived_month
     [Add_data ''2024-03-01'' 7 ''March'', Update_hours_for_date ''2024-01-05'' 6] \<and>
   month_consistent
     (fold perform [Add_data ''2024-03-01'' 7 ''March'', Update_hours_for_date ''2024-01-05'' 6]
        example_timesheet)"
proof -
  have h1: "month_consistent example_timesheet"
    by (simp add: month_consistent_def example_simps date_simps)
  have h2: "list_all passes_derived_month
     [Add_data ''2024-03-01'' 7 ''March'', Update_hours_for_date ''2024-01-05'' 6]"
    by (simp add: date_simps)
  from h1 h2 month_consistent_after_writes[OF h1 h2] show ?thesis by blast
qed

text \<open>
  Claim C7, as stated: no write operation can store negative hours. This fails for the
  storage functions, which check nothing: the call below stores \<open>-1\<close>. The bound is
  enforced by the callers in \<^verbatim>\<open>main\<close>, whose two number inputs have
  \<^verbatim>\<open>min_value=0.0\<close>.
\<close>

theorem add_data_negative_hours:
  "add_data ''2024-01-05'' (- 1) ''January'' empty_timesheet =
     Inr \<lparr>rows = [\<lparr>row_id = 1, work_date = ''2024-01-05'', hours_worked = - 1,
                    month_name = ''January''\<rparr>], sqlite_sequence = 1\<rparr> \<and>
   \<not> hours_nonneg
       \<lparr>rows = [\<lparr>row_id = 1, work_date = ''2024-01-05'', hours_worked = - 1,
                  month_name = ''January''\<rparr>], sqlite_sequence = 1\<rparr>"
  by (simp add: table_simps hours_nonneg_def)

text \<open>
  Claim C7, amended. The storage functions store the hours they are given. So when every
  stored \<^verbatim>\<open>hours_worked\<close> is at least 0, this still holds after any sequence of writes
  in which each call passes hours of at least 0 (as both views of \<^verbatim>\<open>main\<close> do).
\<close>

theorem hours_nonneg_after_writes:
  assumes "hours_nonneg t" and "list_all (\<lambda>w. 0 \<le> hours_of w) ws"
  shows "hours_nonneg (fold perform ws t)"
  using assms by (induction ws arbitrary: t) (simp_all add: hours_nonneg_perform)

theorem hours_nonneg_after_writes_witness:
  "hours_nonneg example_timesheet \<and>
   list_all (\<lambda>w. 0 \<le> hours_of w)
     [Add_data ''2024-03-01'' 7 ''March'', Update_hours_for_date ''2024-01-05'' 0] \<and>
   hours_nonneg
     (fold perform [Add_data ''2024-03-01'' 7 ''March'', Update_hours_for_date ''2024-01-05'' 0]
        example_timesheet)"
proof -
  have h1: "hours_nonneg example_timesheet"
    by (simp add: hours_nonneg_def example_simps)
  have h2: "list_all (\<lambda>w. 0 \<le> hours_of w)
     [Add_data ''2024-03-01'' 7 ''March'', Update_hours_for_date ''2024-01-05'' 0]"
    by simp
  from h1 h2 hours_nonneg_after_writes[OF h1 h2] show ?thesis by blast
qed

subsection \<open>Login\<close>

text \<open>
  Claim C9. When \<^verbatim>\<open>TIMESHEET_PASSWORD\<close> is unset or empty, every run of \<^verbatim>\<open>main\<close>
  renders the error message alone and stops: neither the login form nor the views are
  rendered, whatever the session state and the inputs, and the session state is unchanged.
\<close>

theorem missing_password_stops:
  assumes "password_env = None \<or> password_env = Some []"
  shows "main password_env ss input_user input_pass login_pressed =
     (ss, [Error ''No password found in environment variable 'TIMESHEET_PASSWORD'.''], Stop)"
  using assms by (auto simp: main_def)

theorem missing_password_stops_witness:
  "main None None ''raisediversity'' '''' True =
     (None, [Error ''No password found in environment variable 'TIMESHEET_PASSWORD'.''], Stop) \<and>
   main (Some '''') None ''raisediversity'' '''' True =
     (None, [Error ''No password found in environment variable 'TIMESHEET_PASSWORD'.''], Stop)"
proof -
  have a: "(None :: string option) = None \<or> None = Some []" by simp
  have b: "Some '''' = None \<or> Some '''' = Some ([] :: string)" by simp
  from missing_password_stops[OF a, of None "''raisediversity''" "''''" True]
    missing_password_stops[OF b, of None "''raisediversity''" "''''" True]
  show ?thesis by (rule conjI)
qed

text \<open>
  Claim C8. With the password set (and so not empty, see C9) and the session logged out,
  pressing Login with the username \<^verbatim>\<open>raisediversity\<close> and the password of the
  environment variable logs the session in with edit access and reruns the script, and
  every later run goes on to the views; with any other username or password the session
  stays logged out and the error message is rendered.
\<close>

theorem login_transition:
  assumes "password_env = Some pw" and "pw \<noteq> []" and "auth_state_of ss = LoggedOut"
  shows "(input_user = ''raisediversity'' \<and> input_pass = pw \<longrightarrow>
           (\<exists>s'. main password_env ss input_user input_pass True = (Some s', login_form, Rerun) \<and>
              auth_state_of (Some s') = LoggedIn_Editor \<and> has_edit_access s' \<and>
              username s' = Some ''raisediversity'' \<and>
              (\<forall>u p b. main password_env (Some s') u p b = (Some s', [], Views)))) \<and>
         (\<not> (input_user = ''raisediversity'' \<and> input_pass = pw) \<longrightarrow>
           (\<exists>s'. main password_env ss input_user input_pass True =
              (Some s', login_form @ [Error ''Invalid credentials. Please try again.''], Stop) \<and>
              auth_state_of (Some s') = LoggedOut))"
proof (cases ss)
  case None
  with assms(1,2) show ?thesis by (auto simp: main_def auth_state_of_def)
next
  case (Some s)
  with assms(3) have "\<not> logged_in s" by (auto simp: auth_state_of_def split: if_splits)
  with Some assms(1,2) show ?thesis by (auto simp: main_def auth_state_of_def)
qed

theorem login_transition_witness:
  "auth_state_of None = LoggedOut \<and>
   main (Some ''s3cret'') None ''raisediversity'' ''s3cret'' True =
     (Some \<lparr>logged_in = True, username = Some ''raisediversity'', has_edit_access = True\<rparr>,
      login_form, Rerun) \<and>
   (\<exists>s'. main (Some ''s3cret'') None ''raisediversity'' ''guess'' True =
      (Some s', login_form @ [Error ''Invalid credentials. Please try again.''], Stop) \<and>
      auth_state_of (Some s') = LoggedOut)"
proof -
  have h1: "Some ''s3cret'' = Some ''s3cret''" by simp
  have h2: "''s3cret'' \<noteq> []" by simp
  have h3: "auth_state_of None = LoggedOut" by (simp add: auth_state_of_def)
  from login_transition[OF h1 h2 h3, of "''raisediversity''" "''s3cret''"]
  have a: "main (Some ''s3cret'') None ''raisediversity'' ''s3cret'' True =
     (Some \<lparr>logged_in = True, username = Some ''raisediversity'', has_edit_access = True\<rparr>,
      login_form, Rerun)"
    by (simp add: main_def)
  from login_transition[OF h1 h2 h3, of "''raisediversity''" "''guess''"]
  have b: "\<exists>s'. main (Some ''s3cret'') None ''raisediversity'' ''guess'' True =
      (Some s', login_form @ [Error ''Invalid credentials. Please try again.''], Stop) \<and>
      auth_state_of (Some s') = LoggedOut"
    by simp
  from h3 a b show ?thesis by blast
qed

subsection \<open>What the date parser accepts\<close>

lemma update_hours_for_date_not_a_date:
  "strptime d = Inl e \<Longrightarrow> update_hours_for_date d h t = Inl e"
  by (simp add: update_hours_for_date_def)

lemma strptime_examples:
  "strptime ''2024-01-05'' = Inr \<lparr>year = 2024, month = 1, day = 5\<rparr>"
  "strptime ''2024-1-5'' = Inr \<lparr>year = 2024, month = 1, day = 5\<rparr>"
  "strptime ''2024-02-29'' = Inr \<lparr>year = 2024, month = 2, day = 29\<rparr>"
  "strptime ''2023-02-29'' = Inl ValueError"
  "strptime ''2024-13-01'' = Inl ValueError"
  "strptime ''0000-01-01'' = Inl ValueError"
  "strptime ''2024-01-05 '' = Inl ValueError"
  "strptime ''not a date'' = Inl ValueError"
  by (simp_all add: date_simps)

lemma strptime_month_range:
  "strptime s = Inr dt \<Longrightarrow> 1 \<le> month dt \<and> month dt \<le> 12"
  by (auto simp: strptime_def make_date_def split: list.splits if_splits option.splits)

subsection \<open>The scenarios of the specification\<close>

lemma scenario_fresh_store:
  "get_months (create_table None) = [] \<and> get_all_dates (create_table None) = []"
  by (simp add: create_table_def get_months_def get_all_dates_def empty_timesheet_def)

lemma scenario_upsert_twice:
  "upserts ''2024-01-05'' [(8, ''January''), (13 / 2, ''January'')] empty_timesheet =
     Inr \<lparr>rows = [\<lparr>row_id = 1, work_date = ''2024-01-05'', hours_worked = 13 / 2,
                    month_name = ''January''\<rparr>], sqlite_sequence = 1\<rparr> \<and>
   get_hours_for_date ''2024-01-05''
     \<lparr>rows = [\<lparr>row_id = 1, work_date = ''2024-01-05'', hours_worked = 13 / 2,
                month_name = ''January''\<rparr>], sqlite_sequence = 1\<rparr> = 13 / 2"
  by (simp add: table_simps get_hours_for_date_def)

lemma scenario_two_months:
  "fold perform [Add_data ''2024-01-05'' 8 ''January'', Add_data ''2024-02-10'' 4 ''February'']
     empty_timesheet = example_timesheet \<and>
   get_months example_timesheet = [''February'', ''January''] \<and>
   get_all_dates example_timesheet = [''2024-01-05'', ''2024-02-10'']"
  by (simp add: table_simps example_simps get_months_def get_all_dates_def)

lemma scenario_set_hours_missing_date:
  "update_hours_for_date ''2099-12-31'' 5 example_timesheet = Inr example_timesheet"
  by (simp add: update_hours_for_date_def date_simps example_simps)

lemma scenario_set_hours:
  "update_hours_for_date ''2024-02-10'' 6 example_timesheet =
     Inr \<lparr>rows = [january_entry,
                  \<lparr>row_id = 2, work_date = ''2024-02-10'', hours_worked = 6,
                    month_name = ''February''\<rparr>], sqlite_sequence = 2\<rparr>"
  by (simp add: update_hours_for_date_def date_simps example_simps)

lemma scenario_login:
  "main (Some ''s3cret'') None ''raisediversity'' ''wrong'' True =
     (Some \<lparr>logged_in = False, username = None, has_edit_access = False\<rparr>,
      login_form @ [Error ''Invalid credentials. Please try again.''], Stop) \<and>
   main (Some ''s3cret'') None ''raisediversity'' ''s3cret'' True =
     (Some \<lparr>logged_in = True, username = Some ''raisediversity'', has_edit_access = True\<rparr>,
      login_form, Rerun)"
  by (simp add: main_def)

end
